theory Spec2Isabelle
  imports Main "HOL-Library.Sublist"
begin

section \<open>Python values shared by the three services\<close>

text \<open>
  The services exchange chat messages as Python dictionaries. The stateful service
  (\<^verbatim>\<open>src/thread/app.py\<close>) declares them \<^verbatim>\<open>Dict[str, str]\<close>; they are association
  lists here, read with \<open>map_of\<close>, and a missing key is the \<^verbatim>\<open>KeyError\<close> Python raises.
  Text is \<open>string\<close>; a line feed is \<open>CHR 0x0A\<close>.
\<close>

type_synonym pydict = "(string \<times> string) list"

text \<open>
  The exceptions: \<^verbatim>\<open>KeyError\<close> holds the missing key, the others the message they were
  raised with. \<open>UpstreamError m\<close> stands for whatever the library call raises, \<open>m\<close> being
  the text \<^verbatim>\<open>str()\<close> gives for it.
\<close>

datatype pyexn =
    KeyError string
  | IndexError string
  | AttributeError string
  | TypeError string
  | UpstreamError string

text \<open>
  \<^verbatim>\<open>repr\<close> of a Python string, a character of the model being a code point below 256.
  The quote is the single quote, unless the string holds a single quote and no double
  quote. The quote and the backslash are escaped, tab, line feed and carriage return are
  written \<^verbatim>\<open>\t\<close>, \<^verbatim>\<open>\n\<close>, \<^verbatim>\<open>\r\<close>, and every other character that is not printable is
  written \<^verbatim>\<open>\xNN\<close> in lower-case hexadecimal. Below 256 the printable characters are
  32 to 126 and 161 to 255 without 173.
\<close>

definition hex_digit :: "nat \<Rightarrow> char" where
  "hex_digit n = ''0123456789abcdef'' ! (n mod 16)"

definition py_printable :: "char \<Rightarrow> bool" where
  "py_printable c =
     (let n = (of_char c :: nat)
      in (32 \<le> n \<and> n < 127) \<or> (161 \<le> n \<and> n \<noteq> 173))"

definition py_repr_char :: "char \<Rightarrow> char \<Rightarrow> string" where
  "py_repr_char quote c =
     (if c = quote \<or> c = CHR 0x5C then [CHR 0x5C, c]
      else if c = CHR 0x09 then [CHR 0x5C, CHR ''t'']
      else if c = CHR 0x0A then [CHR 0x5C, CHR ''n'']
      else if c = CHR 0x0D then [CHR 0x5C, CHR ''r'']
      else if py_printable c then [c]
      else [CHR 0x5C, CHR ''x'',
            hex_digit ((of_char c :: nat) div 16), hex_digit ((of_char c :: nat) mod 16)])"

definition py_repr :: "string \<Rightarrow> string" where
  "py_repr s =
     (let quote = (if CHR 0x27 \<in> set s \<and> CHR 0x22 \<notin> set s then CHR 0x22 else CHR 0x27)
      in [quote] @ concat (map (py_repr_char quote) s) @ [quote])"

text \<open>\<^verbatim>\<open>str(error)\<close>: a \<^verbatim>\<open>KeyError\<close> prints the repr of its key, the others their message.\<close>

fun str_exn :: "pyexn \<Rightarrow> string" where
  "str_exn (KeyError k) = py_repr k"
| "str_exn (IndexError m) = m"
| "str_exn (AttributeError m) = m"
| "str_exn (TypeError m) = m"
| "str_exn (UpstreamError m) = m"

text \<open>\<^verbatim>\<open>d[k]\<close> on a dictionary and \<^verbatim>\<open>xs[0]\<close> on a list, with the exceptions they raise.\<close>

definition getitem :: "pydict \<Rightarrow> string \<Rightarrow> pyexn + string" where
  "getitem d k = (case map_of d k of None \<Rightarrow> Inl (KeyError k) | Some v \<Rightarrow> Inr v)"

definition first_item :: "'a list \<Rightarrow> pyexn + 'a" where
  "first_item xs = (case xs of [] \<Rightarrow> Inl (IndexError ''list index out of range'') | x # _ \<Rightarrow> Inr x)"

datatype http_exception = HTTPException (status_code: nat) (detail: string)

section \<open>The stateful service: \<^verbatim>\<open>src/thread\<close>\<close>

subsection \<open>The completion client (\<^verbatim>\<open>src/thread/openai_service.py\<close>)\<close>

text \<open>
  The object the OpenAI library returns from \<^verbatim>\<open>chat.completions.create\<close>, as far as
  \<^verbatim>\<open>OpenAIService.completion\<close> reads it: the list of choices, the model name and the
  optional usage block (its \<^verbatim>\<open>model_dump()\<close> is the association list it holds).
  The role and the content of a message are text, as the annotations of the source
  (\<^verbatim>\<open>Dict[str, str]\<close>, \<^verbatim>\<open>-> str\<close>) take them to be. The service always passes
  \<^verbatim>\<open>stream=False\<close>, so the value returned is a completion and never a stream.
\<close>

record chat_completion_message =
  msg_role :: string
  msg_content :: string

record chat_completion_choice =
  ch_message :: chat_completion_message
  ch_index :: int

record chat_completion =
  cc_choices :: "chat_completion_choice list"
  cc_model :: string
  cc_usage :: "(string \<times> int) list option"

text \<open>
  The library call itself is outside the repository. It is a parameter: given the
  messages, the model and the stream flag it answers with an exception or a completion,
  and it may depend on and change the outside world \<open>'w\<close>.
\<close>

type_synonym 'w create =
  "pydict list \<Rightarrow> string \<Rightarrow> bool \<Rightarrow> 'w \<Rightarrow> (pyexn + chat_completion) \<times> 'w"

text \<open>The dictionary \<^verbatim>\<open>OpenAIService.completion\<close> builds and returns.\<close>

record choice_dict =
  message :: pydict
  index :: int

record completion_dict =
  choices :: "choice_dict list"
  model :: string
  usage :: "(string \<times> int) list"

definition thread_completion ::
  "'w create \<Rightarrow> pydict list \<Rightarrow> string \<Rightarrow> bool \<Rightarrow> 'w \<Rightarrow> (pyexn + completion_dict) \<times> 'w" where
  "thread_completion create msgs mdl stream w =
     (case create msgs mdl stream w of
        (Inl error, w') \<Rightarrow> (Inl error, w')
      | (Inr cc, w') \<Rightarrow>
          (case first_item (cc_choices cc) of
             Inl error \<Rightarrow> (Inl error, w')
           | Inr c0 \<Rightarrow>
               (case cc_usage cc of
                  None \<Rightarrow>
                    (Inl (AttributeError
                       ([CHR 0x27] @ ''NoneType'' @ [CHR 0x27] @ '' object has no attribute ''
                        @ [CHR 0x27] @ ''model_dump'' @ [CHR 0x27])), w')
                | Some u \<Rightarrow>
                    (Inr \<lparr>choices =
                            [\<lparr>message =
                                [(''role'', msg_role (ch_message c0)),
                                 (''content'', msg_content (ch_message c0))],
                              index = ch_index c0\<rparr>],
                          model = cc_model cc,
                          usage = u\<rparr>, w'))))"

subsection \<open>Prompts and the summary update (\<^verbatim>\<open>src/thread/app.py\<close>)\<close>

definition persona_head :: string where
  "persona_head =
     ''You are Alice, a helpful assistant who speaks using as few words as possible. ''
     @ [CHR 0x0A] @ ''        ''"

definition persona_tail :: string where
  "persona_tail = '' '' @ [CHR 0x0A] @ ''        Let'' @ [CHR 0x27] @ ''s chat!''"

definition summary_open :: string where
  "summary_open =
     ''Here is a summary of the conversation so far: '' @ [CHR 0x0A]
     @ ''    <conversation_summary>'' @ [CHR 0x0A] @ ''      ''"

definition summary_close :: string where
  "summary_close = [CHR 0x0A] @ ''    </conversation_summary>''"

definition create_system_prompt :: "string \<Rightarrow> pydict" where
  "create_system_prompt summarization =
     [(''role'', ''system''),
      (''content'',
         persona_head
         @ (if summarization \<noteq> [] then summary_open @ summarization @ summary_close
            else [])
         @ persona_tail)]"

text \<open>
  \<^verbatim>\<open>generate_summarization\<close> reads the global \<^verbatim>\<open>previous_summarization\<close>; it is the
  first argument here. The f-string reads \<^verbatim>\<open>user_message['content']\<close> before
  \<^verbatim>\<open>assistant_response['content']\<close>, and no call is made when either raises.
\<close>

definition summarization_content :: "string \<Rightarrow> string \<Rightarrow> string \<Rightarrow> string" where
  "summarization_content previous_summarization user_content assistant_content =
     ''Please summarize the following conversation in a concise manner:'' @ [CHR 0x0A]
     @ ''<previous_summary>''
     @ (if previous_summarization \<noteq> [] then previous_summarization
        else ''No previous summary'')
     @ ''</previous_summary>'' @ [CHR 0x0A]
     @ ''<current_turn> User: '' @ user_content @ [CHR 0x0A]
     @ ''Assistant: '' @ assistant_content @ '' </current_turn>'' @ [CHR 0x0A]"

definition generate_summarization ::
  "'w create \<Rightarrow> string \<Rightarrow> pydict \<Rightarrow> pydict \<Rightarrow> 'w \<Rightarrow> (pyexn + string) \<times> 'w" where
  "generate_summarization create previous_summarization user_message assistant_response w =
     (case getitem user_message ''content'' of
        Inl error \<Rightarrow> (Inl error, w)
      | Inr user_content \<Rightarrow>
     (case getitem assistant_response ''content'' of
        Inl error \<Rightarrow> (Inl error, w)
      | Inr assistant_content \<Rightarrow>
     (let summarization_prompt =
            [(''role'', ''system''),
             (''content'',
                summarization_content previous_summarization user_content assistant_content)]
      in
     (case thread_completion create
             [summarization_prompt,
              [(''role'', ''user''),
               (''content'', ''Please create/update our conversation summary.'')]]
             ''gpt-4o-mini'' False w of
        (Inl error, w') \<Rightarrow> (Inl error, w')
      | (Inr response, w') \<Rightarrow>
     (case first_item (choices response) of
        Inl error \<Rightarrow> (Inl error, w')
      | Inr c0 \<Rightarrow>
     (case getitem (message c0) ''content'' of
        Inl error \<Rightarrow> (Inl error, w')
      | Inr summary \<Rightarrow> (Inr summary, w')))))))"

subsection \<open>The endpoints (\<^verbatim>\<open>src/thread/app.py\<close>)\<close>

record chat_request =
  messages :: "pydict list"

text \<open>
  One call of \<^verbatim>\<open>POST /api/chat\<close>. The result is the HTTP outcome (\<open>Inl\<close> the raised
  \<^verbatim>\<open>HTTPException\<close>, \<open>Inr\<close> the returned body, sent with status 200), the value of the
  global \<^verbatim>\<open>previous_summarization\<close> afterwards, and the outside world afterwards.
  The global is assigned only when \<^verbatim>\<open>generate_summarization\<close> has returned.
\<close>

definition thread_chat ::
  "'w create \<Rightarrow> chat_request \<Rightarrow> string \<Rightarrow> 'w
     \<Rightarrow> (http_exception + completion_dict) \<times> string \<times> 'w" where
  "thread_chat create request previous_summarization w =
     (if messages request = [] then
        (Inl (HTTPException 400 ''No messages provided''), previous_summarization, w)
      else
        (let system_prompt = create_system_prompt previous_summarization in
         (case thread_completion create [system_prompt, hd (messages request)]
                 ''gpt-4o'' False w of
            (Inl error, w1) \<Rightarrow>
              (Inl (HTTPException 500 (str_exn error)), previous_summarization, w1)
          | (Inr assistant_response, w1) \<Rightarrow>
         (case first_item (choices assistant_response) of
            Inl error \<Rightarrow>
              (Inl (HTTPException 500 (str_exn error)), previous_summarization, w1)
          | Inr c0 \<Rightarrow>
         (case generate_summarization create previous_summarization
                 (hd (messages request)) (message c0) w1 of
            (Inl error, w2) \<Rightarrow>
              (Inl (HTTPException 500 (str_exn error)), previous_summarization, w2)
          | (Inr summary, w2) \<Rightarrow> (Inr assistant_response, summary, w2))))))"

text \<open>
  \<^verbatim>\<open>POST /api/demo\<close>: the loop over the three hardcoded messages. The \<^verbatim>\<open>print\<close> of
  the answer reads \<^verbatim>\<open>assistant_response["choices"][0]["message"]["content"]\<close> inside the
  \<^verbatim>\<open>try\<close>, before the summary update. \<^verbatim>\<open>assistant_response\<close> starts as \<^verbatim>\<open>None\<close>.
  What the handlers print to standard output is not part of the model.
\<close>

definition demo_messages :: "pydict list" where
  "demo_messages =
     [[(''content'', ''Hi! I'' @ [CHR 0x27] @ ''m Adam''), (''role'', ''user'')],
      [(''content'', ''How are you?''), (''role'', ''user'')],
      [(''content'', ''Do you know my name?''), (''role'', ''user'')]]"

fun demo_loop ::
  "'w create \<Rightarrow> pydict list \<Rightarrow> completion_dict option \<Rightarrow> string \<Rightarrow> 'w
     \<Rightarrow> (http_exception + completion_dict option) \<times> string \<times> 'w" where
  "demo_loop create [] assistant_response previous_summarization w =
     (Inr assistant_response, previous_summarization, w)"
| "demo_loop create (msg # rest) assistant_response previous_summarization w =
     (let system_prompt = create_system_prompt previous_summarization in
      (case thread_completion create [system_prompt, msg] ''gpt-4o'' False w of
         (Inl error, w1) \<Rightarrow>
           (Inl (HTTPException 500 (str_exn error)), previous_summarization, w1)
       | (Inr response, w1) \<Rightarrow>
      (case first_item (choices response) of
         Inl error \<Rightarrow>
           (Inl (HTTPException 500 (str_exn error)), previous_summarization, w1)
       | Inr c0 \<Rightarrow>
      (case getitem (message c0) ''content'' of
         Inl error \<Rightarrow>
           (Inl (HTTPException 500 (str_exn error)), previous_summarization, w1)
       | Inr printed \<Rightarrow>
      (case generate_summarization create previous_summarization msg (message c0) w1 of
         (Inl error, w2) \<Rightarrow>
           (Inl (HTTPException 500 (str_exn error)), previous_summarization, w2)
       | (Inr summary, w2) \<Rightarrow> demo_loop create rest (Some response) summary w2)))))"

definition demo ::
  "'w create \<Rightarrow> string \<Rightarrow> 'w
     \<Rightarrow> (http_exception + completion_dict option) \<times> string \<times> 'w" where
  "demo create previous_summarization w =
     demo_loop create demo_messages None previous_summarization w"

section \<open>The basic service: \<^verbatim>\<open>src/sdk\<close>, with \<^verbatim>\<open>src/streaming/helpers.py\<close>\<close>

text \<open>
  \<^verbatim>\<open>is_valid_message\<close> tests its argument with \<^verbatim>\<open>isinstance\<close>, so it is defined on
  any Python value. \<^verbatim>\<open>src/sdk/app.py\<close> imports it from a \<^verbatim>\<open>helpers\<close> module of its
  own; the function here is the one of \<^verbatim>\<open>src/streaming/helpers.py\<close>.
\<close>

datatype pyval =
    PyNone
  | PyBool bool
  | PyInt int
  | PyStr string
  | PyList "pyval list"
  | PyDict "(string \<times> pyval) list"

fun is_valid_message :: "pyval \<Rightarrow> bool" where
  "is_valid_message (PyDict d) =
     (map_of d ''role'' \<noteq> None \<and>
      map_of d ''content'' \<noteq> None \<and>
      (case map_of d ''content'' of Some (PyStr s) \<Rightarrow> True | _ \<Rightarrow> False))"
| "is_valid_message _ = False"

text \<open>
  The handler is declared on \<^verbatim>\<open>ChatRequest\<close>, whose \<^verbatim>\<open>messages\<close> are
  \<^verbatim>\<open>List[Dict[str, str]]\<close>: the framework answers a body of any other shape itself, before
  the handler runs, so the handler only ever sees dictionaries from text to text.
  \<open>dict_value\<close> is such a dictionary as the Python value \<^verbatim>\<open>is_valid_message\<close> is given.
\<close>

record sdk_chat_request =
  sdk_messages :: "pydict list"

definition dict_value :: "pydict \<Rightarrow> pyval" where
  "dict_value d = PyDict (map (\<lambda>(k, v). (k, PyStr v)) d)"

text \<open>
  \<^verbatim>\<open>src/sdk/openai_service.py\<close> builds the synchronous client \<^verbatim>\<open>OpenAI()\<close> and awaits
  what its \<^verbatim>\<open>chat.completions.create\<close> returns. The library call is the parameter (it has
  no stream flag here). When it raises, the exception is raised again. When it returns,
  the value is a completion, which is not awaitable: the \<^verbatim>\<open>await\<close> raises
  \<^verbatim>\<open>TypeError\<close>, caught by the same \<^verbatim>\<open>except\<close> and raised again, so
  \<^verbatim>\<open>return chat_completion\<close> is never reached.
\<close>

type_synonym 'w sdk_create =
  "pydict list \<Rightarrow> string \<Rightarrow> 'w \<Rightarrow> (pyexn + chat_completion) \<times> 'w"

definition sdk_completion ::
  "'w sdk_create \<Rightarrow> pydict list \<Rightarrow> string \<Rightarrow> 'w \<Rightarrow> (pyexn + chat_completion) \<times> 'w" where
  "sdk_completion create msgs mdl w =
     (case create msgs mdl w of
        (Inl error, w') \<Rightarrow> (Inl error, w')
      | (Inr returned, w') \<Rightarrow>
          (Inl (TypeError
             (''object ChatCompletion can'' @ [CHR 0x27] @ ''t be used in ''
              @ [CHR 0x27] @ ''await'' @ [CHR 0x27] @ '' expression'')), w'))"

definition sdk_system_prompt :: pydict where
  "sdk_system_prompt =
     [(''role'', ''system''),
      (''content'',
         ''You are a helpful assistant who speaks using as fewest words as possible.'')]"

definition sdk_chat ::
  "'w sdk_create \<Rightarrow> sdk_chat_request \<Rightarrow> 'w \<Rightarrow> (http_exception + chat_completion) \<times> 'w" where
  "sdk_chat create request w =
     (if sdk_messages request = [] then
        (Inl (HTTPException 400 ''Invalid or missing messages in request body''), w)
      else if \<not> list_all (\<lambda>msg. is_valid_message (dict_value msg)) (sdk_messages request) then
        (Inl (HTTPException 400 ''Invalid message format in request body''), w)
      else
        (case sdk_completion create ([sdk_system_prompt] @ sdk_messages request) ''gpt-4'' w of
           (Inl error, w') \<Rightarrow>
             (Inl (HTTPException 500 ''An error occurred while processing your request''), w')
         | (Inr answer, w') \<Rightarrow> (Inr answer, w')))"

section \<open>Concrete clients for running the model\<close>

text \<open>
  A completion as the library would return it, and a client that answers its calls from
  a script: the world is the list of outcomes still to come, one per call.
\<close>

definition stub_completion :: "string \<Rightarrow> chat_completion" where
  "stub_completion text =
     \<lparr>cc_choices = [\<lparr>ch_message = \<lparr>msg_role = ''assistant'', msg_content = text\<rparr>, ch_index = 0\<rparr>],
      cc_model = ''stub'',
      cc_usage = Some [(''total_tokens'', 0)]\<rparr>"

fun scripted :: "(pyexn + chat_completion) list create" where
  "scripted msgs mdl stream [] = (Inl (UpstreamError ''script exhausted''), [])"
| "scripted msgs mdl stream (a # rest) = (a, rest)"

definition user_hi :: pydict where
  "user_hi = [(''role'', ''user''), (''content'', ''hi'')]"

text \<open>
  A deterministic client answers by a function of the call alone and leaves the world as
  it is. \<open>echo_first\<close> is one: its answer is the content of the first message it is sent.
\<close>

definition deterministic ::
  "(pydict list \<Rightarrow> string \<Rightarrow> bool \<Rightarrow> pyexn + chat_completion) \<Rightarrow> 'w create" where
  "deterministic f msgs mdl stream w = (f msgs mdl stream, w)"

definition echo_first :: "pydict list \<Rightarrow> string \<Rightarrow> bool \<Rightarrow> pyexn + chat_completion" where
  "echo_first msgs mdl stream =
     (case msgs of
        [] \<Rightarrow> Inl (UpstreamError ''no messages'')
      | m # _ \<Rightarrow>
          (case map_of m ''content'' of
             None \<Rightarrow> Inl (UpstreamError ''no content'')
           | Some c \<Rightarrow> Inr (stub_completion c)))"

text \<open>
  A recording client keeps the list of the calls made so far as its world, and answers by
  a function of that list and of the call: every client whose answers are determined by
  what it has been asked is of this form.
\<close>

type_synonym call = "pydict list \<times> string \<times> bool"

definition recording :: "(call list \<Rightarrow> call \<Rightarrow> pyexn + chat_completion) \<Rightarrow> call list create" where
  "recording answer msgs mdl stream log =
     (answer log (msgs, mdl, stream), log @ [(msgs, mdl, stream)])"

definition always_hello :: "call list \<Rightarrow> call \<Rightarrow> pyexn + chat_completion" where
  "always_hello log c = Inr (stub_completion ''Hello.'')"

text \<open>The script of a demo run in which all six completion calls return.\<close>

definition demo_script :: "(pyexn + chat_completion) list" where
  "demo_script =
     [Inr (stub_completion ''Nice to meet you, Adam.''),
      Inr (stub_completion ''The user is Adam.''),
      Inr (stub_completion ''I am fine.''),
      Inr (stub_completion ''The user is Adam and asked how Alice is.''),
      Inr (stub_completion ''Yes, you are Adam.''),
      Inr (stub_completion ''The user is Adam and asked whether Alice knows his name.'')]"

text \<open>A client of the basic service whose library call has one fixed outcome.\<close>

definition sdk_fixed :: "(pyexn + chat_completion) \<Rightarrow> unit sdk_create" where
  "sdk_fixed outcome msgs mdl w = (outcome, w)"

section \<open>Properties of the stateful service\<close>

lemmas thread_defs = thread_chat_def thread_completion_def generate_summarization_def
  getitem_def first_item_def create_system_prompt_def summarization_content_def
  persona_head_def persona_tail_def summary_open_def summary_close_def
  stub_completion_def user_hi_def

lemma py_repr_content: "py_repr ''content'' = [CHR 0x27] @ ''content'' @ [CHR 0x27]"
  by (simp add: py_repr_def py_repr_char_def py_printable_def Let_def)

lemma thread_completion_Inr:
  assumes "thread_completion create msgs mdl stream w = (Inr r, w')"
  shows "\<exists>ro co ix. choices r = [\<lparr>message = [(''role'', ro), (''content'', co)], index = ix\<rparr>]"
  using assms
  by (auto simp: thread_completion_def split: prod.splits sum.splits option.splits)

lemma thread_chat_success:
  assumes "thread_chat create request ps w = (Inr r, s1, w2)"
  shows "\<exists>c0 w1. choices r = [c0]
          \<and> thread_completion create [create_system_prompt ps, hd (messages request)]
                ''gpt-4o'' False w = (Inr r, w1)
          \<and> generate_summarization create ps (hd (messages request)) (message c0) w1
                = (Inr s1, w2)"
proof -
  from assms have ne: "messages request \<noteq> []"
    by (auto simp: thread_chat_def split: if_splits)
  from assms ne obtain w1 where
    r: "thread_completion create [create_system_prompt ps, hd (messages request)]
          ''gpt-4o'' False w = (Inr r, w1)"
    by (auto simp: thread_chat_def split: prod.splits sum.splits)
  from thread_completion_Inr[OF r] obtain c0 where c0: "choices r = [c0]" by blast
  from assms ne r c0 have
    "generate_summarization create ps (hd (messages request)) (message c0) w1 = (Inr s1, w2)"
    by (auto simp: thread_chat_def first_item_def split: prod.splits sum.splits)
  with c0 r show ?thesis by blast
qed

lemma thread_chat_failure_keeps_summary:
  "fst (thread_chat create request ps w) = Inl err \<Longrightarrow> fst (snd (thread_chat create request ps w)) = ps"
  by (auto simp: thread_chat_def Let_def split: prod.splits sum.splits if_splits)

lemma responder_failure_fails_turn:
  assumes "messages request = m # ms"
    and "thread_completion create [create_system_prompt ps, m] ''gpt-4o'' False w = (Inl e, w1)"
  shows "thread_chat create request ps w = (Inl (HTTPException 500 (str_exn e)), ps, w1)"
  using assms by (simp add: thread_chat_def)

lemma summarizer_failure_generate:
  assumes "getitem user_message ''content'' = Inr uc"
    and "getitem assistant_response ''content'' = Inr ac"
    and "thread_completion create
           [[(''role'', ''system''), (''content'', summarization_content ps uc ac)],
            [(''role'', ''user''),
             (''content'', ''Please create/update our conversation summary.'')]]
           ''gpt-4o-mini'' False w1 = (Inl e, w2)"
  shows "generate_summarization create ps user_message assistant_response w1 = (Inl e, w2)"
  using assms by (simp add: generate_summarization_def)

lemma generate_summarization_cong:
  assumes "map_of user_message ''content'' = map_of user_message' ''content''"
    and "map_of assistant_response ''content'' = map_of assistant_response' ''content''"
  shows "fst (generate_summarization (deterministic f) ps user_message assistant_response w)
       = fst (generate_summarization (deterministic f) ps user_message' assistant_response' w')"
  using assms
  by (simp add: generate_summarization_def getitem_def thread_completion_def deterministic_def
        split: option.splits sum.splits)

lemma generate_summarization_Inr_contents:
  assumes "generate_summarization create ps user_message assistant_response w = (Inr s, w')"
  shows "\<exists>uc ac. getitem user_message ''content'' = Inr uc
               \<and> getitem assistant_response ''content'' = Inr ac"
  using assms by (auto simp: generate_summarization_def split: sum.splits)

lemma recording_log:
  "snd (thread_completion (recording answer) msgs mdl stream log) = log @ [(msgs, mdl, stream)]"
  by (simp add: thread_completion_def recording_def split: sum.splits option.splits)

lemma generate_summarization_recording_log:
  assumes "getitem user_message ''content'' = Inr uc"
    and "getitem assistant_response ''content'' = Inr ac"
  shows "snd (generate_summarization (recording answer) ps user_message assistant_response log)
      = log @ [([[(''role'', ''system''), (''content'', summarization_content ps uc ac)],
                 [(''role'', ''user''),
                  (''content'', ''Please create/update our conversation summary.'')]],
                ''gpt-4o-mini'', False)]"
proof -
  have "generate_summarization (recording answer) ps user_message assistant_response log
      = (case thread_completion (recording answer)
             [[(''role'', ''system''), (''content'', summarization_content ps uc ac)],
              [(''role'', ''user''),
               (''content'', ''Please create/update our conversation summary.'')]]
             ''gpt-4o-mini'' False log of
        (Inl error, w') \<Rightarrow> (Inl error, w')
      | (Inr response, w') \<Rightarrow>
     (case first_item (choices response) of
        Inl error \<Rightarrow> (Inl error, w')
      | Inr c0 \<Rightarrow>
     (case getitem (message c0) ''content'' of
        Inl error \<Rightarrow> (Inl error, w')
      | Inr summary \<Rightarrow> (Inr summary, w'))))"
    using assms by (simp add: generate_summarization_def)
  then have "snd (generate_summarization (recording answer) ps user_message assistant_response log)
      = snd (thread_completion (recording answer)
             [[(''role'', ''system''), (''content'', summarization_content ps uc ac)],
              [(''role'', ''user''),
               (''content'', ''Please create/update our conversation summary.'')]]
             ''gpt-4o-mini'' False log)"
    by (simp split: prod.splits sum.splits)
  then show ?thesis by (simp add: recording_log)
qed

lemma demo_loop_step:
  "demo_loop create (msg # rest) prev ps w =
     (case thread_chat create \<lparr>messages = [msg]\<rparr> ps w of
        (Inl e, s1, w1) \<Rightarrow> (Inl e, s1, w1)
      | (Inr r, s1, w1) \<Rightarrow> demo_loop create rest (Some r) s1 w1)"
proof (cases "thread_completion create [create_system_prompt ps, msg] ''gpt-4o'' False w")
  case (Pair res w1)
  show ?thesis
  proof (cases res)
    case (Inl e)
    with Pair show ?thesis by (simp add: thread_chat_def)
  next
    case (Inr r)
    with Pair have r: "thread_completion create [create_system_prompt ps, msg] ''gpt-4o'' False w
        = (Inr r, w1)" by simp
    from thread_completion_Inr[OF r] obtain ro co ix where
      c: "choices r = [\<lparr>message = [(''role'', ro), (''content'', co)], index = ix\<rparr>]" by blast
    show ?thesis using r c
      by (simp add: thread_chat_def first_item_def getitem_def split: prod.splits sum.splits)
  qed
qed

text \<open>
  Claim C1, as stated, fails on the code: the summary update runs inside the same
  \<^verbatim>\<open>try\<close> as the responder call, so its exception becomes the HTTP 500 of the turn and
  the assistant message already obtained is not returned. Below, the responder completion
  returns \<open>Hello.\<close>, the summarizer completion raises, and \<^verbatim>\<open>chat\<close> answers 500.
\<close>

theorem summarizer_failure_discards_answer:
  "thread_completion scripted [create_system_prompt ''The user is Adam.'', user_hi] ''gpt-4o'' False
       [Inr (stub_completion ''Hello.''), Inl (UpstreamError ''rate limit'')]
     = (Inr \<lparr>choices = [\<lparr>message = [(''role'', ''assistant''), (''content'', ''Hello.'')],
                           index = 0\<rparr>],
             model = ''stub'', usage = [(''total_tokens'', 0)]\<rparr>,
        [Inl (UpstreamError ''rate limit'')])
   \<and> generate_summarization scripted ''The user is Adam.'' user_hi
         [(''role'', ''assistant''), (''content'', ''Hello.'')]
         [Inl (UpstreamError ''rate limit'')]
     = (Inl (UpstreamError ''rate limit''), [])
   \<and> thread_chat scripted \<lparr>messages = [user_hi]\<rparr> ''The user is Adam.''
         [Inr (stub_completion ''Hello.''), Inl (UpstreamError ''rate limit'')]
     = (Inl (HTTPException 500 ''rate limit''), ''The user is Adam.'', [])"
  by (simp add: thread_defs)

text \<open>
  Claim C1, amended. When the responder completion returns and the summarizer completion
  raises, the turn ends in an HTTP 500, the assistant message is not returned, and the
  summary is left unchanged.
\<close>

theorem summarizer_failure_fails_turn:
  assumes "messages request = m # ms"
    and "thread_completion create [create_system_prompt ps, m] ''gpt-4o'' False w = (Inr r, w1)"
    and "getitem m ''content'' = Inr uc"
    and "getitem (message (hd (choices r))) ''content'' = Inr ac"
    and "thread_completion create
           [[(''role'', ''system''), (''content'', summarization_content ps uc ac)],
            [(''role'', ''user''),
             (''content'', ''Please create/update our conversation summary.'')]]
           ''gpt-4o-mini'' False w1 = (Inl e, w2)"
  shows "\<exists>d. thread_chat create request ps w = (Inl (HTTPException 500 d), ps, w2)"
proof -
  from thread_completion_Inr[OF assms(2)] obtain c0 where c0: "choices r = [c0]" by blast
  have "generate_summarization create ps m (message c0) w1 = (Inl e, w2)"
    using summarizer_failure_generate[OF assms(3) _ assms(5)] assms(4) c0 by simp
  then show ?thesis using assms(1,2) c0 by (simp add: thread_chat_def first_item_def)
qed

theorem summarizer_failure_fails_turn_witness:
  "\<exists>d. thread_chat scripted \<lparr>messages = [user_hi]\<rparr> ''''
         [Inr (stub_completion ''Hi there.''), Inl (UpstreamError ''timeout'')]
     = (Inl (HTTPException 500 d), '''', [])"
proof -
  have h1: "messages \<lparr>messages = [user_hi]\<rparr> = user_hi # []" by simp
  have h2: "thread_completion scripted [create_system_prompt '''', user_hi] ''gpt-4o'' False
              [Inr (stub_completion ''Hi there.''), Inl (UpstreamError ''timeout'')]
            = (Inr \<lparr>choices = [\<lparr>message = [(''role'', ''assistant''), (''content'', ''Hi there.'')],
                                  index = 0\<rparr>],
                    model = ''stub'', usage = [(''total_tokens'', 0)]\<rparr>,
               [Inl (UpstreamError ''timeout'')])"
    by (simp add: thread_completion_def first_item_def stub_completion_def)
  have h3: "getitem user_hi ''content'' = Inr ''hi''"
    by (simp add: getitem_def user_hi_def)
  have h4: "getitem (message (hd (choices
               \<lparr>choices = [\<lparr>message = [(''role'', ''assistant''), (''content'', ''Hi there.'')],
                                  index = 0\<rparr>],
                    model = ''stub'', usage = [(''total_tokens'', 0)]\<rparr>))) ''content'' = Inr ''Hi there.''"
    by (simp add: getitem_def)
  have h5: "thread_completion scripted
           [[(''role'', ''system''), (''content'', summarization_content '''' ''hi'' ''Hi there.'')],
            [(''role'', ''user''),
             (''content'', ''Please create/update our conversation summary.'')]]
           ''gpt-4o-mini'' False [Inl (UpstreamError ''timeout'')] = (Inl (UpstreamError ''timeout''), [])"
    by (simp add: thread_completion_def)
  show ?thesis
    by (rule summarizer_failure_fails_turn[OF h1 h2 h3 h4 h5])
qed

text \<open>
  Claim C2. A turn in which a completion call fails leaves the stored summary as it was:
  when the responder completion raises, or when the responder completion returns and the
  summarizer completion raises, the value of \<^verbatim>\<open>previous_summarization\<close> after
  \<^verbatim>\<open>chat\<close> is the value before it, and the turn ends in an HTTP 500.
\<close>

theorem failed_completion_keeps_summary:
  assumes "messages request = m # ms"
    and "(\<exists>e w1. thread_completion create [create_system_prompt ps, m] ''gpt-4o'' False w
                     = (Inl e, w1))
       \<or> (\<exists>r w1 uc ac e w2.
             thread_completion create [create_system_prompt ps, m] ''gpt-4o'' False w
               = (Inr r, w1)
           \<and> getitem m ''content'' = Inr uc
           \<and> getitem (message (hd (choices r))) ''content'' = Inr ac
           \<and> thread_completion create
                 [[(''role'', ''system''),
                   (''content'', summarization_content ps uc ac)],
                  [(''role'', ''user''),
                   (''content'', ''Please create/update our conversation summary.'')]]
                 ''gpt-4o-mini'' False w1 = (Inl e, w2))"
  shows "fst (snd (thread_chat create request ps w)) = ps
       \<and> (\<exists>d. fst (thread_chat create request ps w) = Inl (HTTPException 500 d))"
  using assms(2)
proof (elim disjE exE conjE)
  fix e w1
  assume "thread_completion create [create_system_prompt ps, m] ''gpt-4o'' False w = (Inl e, w1)"
  then show ?thesis using assms(1) by (simp add: thread_chat_def)
next
  fix r w1 uc ac e w2
  assume r: "thread_completion create [create_system_prompt ps, m] ''gpt-4o'' False w = (Inr r, w1)"
    and uc: "getitem m ''content'' = Inr uc"
    and ac: "getitem (message (hd (choices r))) ''content'' = Inr ac"
    and s: "thread_completion create
                 [[(''role'', ''system''),
                   (''content'', summarization_content ps uc ac)],
                  [(''role'', ''user''),
                   (''content'', ''Please create/update our conversation summary.'')]]
                 ''gpt-4o-mini'' False w1 = (Inl e, w2)"
  from thread_completion_Inr[OF r] obtain c0 where c0: "choices r = [c0]" by blast
  have g: "generate_summarization create ps m (message c0) w1 = (Inl e, w2)"
    using uc ac s c0 by (simp add: generate_summarization_def)
  show ?thesis using assms(1) r c0 g by (simp add: thread_chat_def first_item_def)
qed

theorem failed_completion_keeps_summary_witness:
  "fst (snd (thread_chat scripted \<lparr>messages = [user_hi]\<rparr> ''The user is Adam.''
               [Inr (stub_completion ''Hello.''), Inl (UpstreamError ''timeout'')]))
     = ''The user is Adam.''"
proof -
  have h1: "messages \<lparr>messages = [user_hi]\<rparr> = user_hi # []" by simp
  have h2: "(\<exists>e w1. thread_completion scripted [create_system_prompt ''The user is Adam.'', user_hi] ''gpt-4o'' False
                  [Inr (stub_completion ''Hello.''), Inl (UpstreamError ''timeout'')]
                     = (Inl e, w1))
       \<or> (\<exists>r w1 uc ac e w2.
             thread_completion scripted [create_system_prompt ''The user is Adam.'', user_hi] ''gpt-4o'' False
                [Inr (stub_completion ''Hello.''), Inl (UpstreamError ''timeout'')]
               = (Inr r, w1)
           \<and> getitem user_hi ''content'' = Inr uc
           \<and> getitem (message (hd (choices r))) ''content'' = Inr ac
           \<and> thread_completion scripted
                 [[(''role'', ''system''),
                   (''content'', summarization_content ''The user is Adam.'' uc ac)],
                  [(''role'', ''user''),
                   (''content'', ''Please create/update our conversation summary.'')]]
                 ''gpt-4o-mini'' False w1 = (Inl e, w2))"
    by (simp add: thread_completion_def first_item_def getitem_def stub_completion_def user_hi_def)
  show ?thesis using failed_completion_keeps_summary[OF h1 h2] by simp
qed

text \<open>
  Claim C3. Against a deterministic client the summary update gives the same result
  whenever the previous summary, the user message's content and the assistant message's
  content are the same: the other keys of the two messages and the state of the world do
  not enter. The new summary of a successful turn is the result of that update on the
  summary before the turn, the request's first message and the responder's message.
\<close>

theorem summary_function_of_triple:
  "(map_of user_message ''content'' = map_of user_message' ''content''
      \<and> map_of assistant_response ''content'' = map_of assistant_response' ''content''
    \<longrightarrow> fst (generate_summarization (deterministic f) ps user_message assistant_response w)
        = fst (generate_summarization (deterministic f) ps user_message' assistant_response' w'))
   \<and> (thread_chat (deterministic f) request ps w = (Inr r, s1, w1)
    \<longrightarrow> (\<exists>c0. choices r = [c0]
          \<and> fst (generate_summarization (deterministic f) ps (hd (messages request))
                   (message c0) w) = Inr s1))"
proof (intro conjI impI)
  assume "map_of user_message ''content'' = map_of user_message' ''content''
      \<and> map_of assistant_response ''content'' = map_of assistant_response' ''content''"
  then show "fst (generate_summarization (deterministic f) ps user_message assistant_response w)
        = fst (generate_summarization (deterministic f) ps user_message' assistant_response' w')"
    by (intro generate_summarization_cong) simp_all
next
  assume a: "thread_chat (deterministic f) request ps w = (Inr r, s1, w1)"
  from thread_chat_success[OF a] obtain c0 w0 where
    c0: "choices r = [c0]"
    and r: "thread_completion (deterministic f) [create_system_prompt ps, hd (messages request)]
                ''gpt-4o'' False w = (Inr r, w0)"
    and g: "generate_summarization (deterministic f) ps (hd (messages request)) (message c0) w0
                = (Inr s1, w1)"
    by blast
  from r have "w0 = w"
    by (auto simp: thread_completion_def deterministic_def split: sum.splits option.splits)
  with c0 g show "\<exists>c0. choices r = [c0]
          \<and> fst (generate_summarization (deterministic f) ps (hd (messages request))
                   (message c0) w) = Inr s1"
    by auto
qed

theorem summary_function_of_triple_witness:
  "map_of user_hi ''content'' = map_of [(''content'', ''hi''), (''name'', ''Adam'')] ''content''
   \<and> map_of [(''role'', ''assistant''), (''content'', ''Hello.'')] ''content''
       = map_of [(''content'', ''Hello.'')] ''content''
   \<and> fst (generate_summarization (deterministic echo_first) ''Greeting.'' user_hi
             [(''role'', ''assistant''), (''content'', ''Hello.'')] (0::nat))
     = fst (generate_summarization (deterministic echo_first) ''Greeting.''
             [(''content'', ''hi''), (''name'', ''Adam'')] [(''content'', ''Hello.'')] (7::nat))
   \<and> fst (generate_summarization (deterministic echo_first) ''Greeting.'' user_hi
             [(''role'', ''assistant''), (''content'', ''Hello.'')] (0::nat))
     = Inr (''Please summarize the following conversation in a concise manner:'' @ [CHR 0x0A]
            @ ''<previous_summary>Greeting.</previous_summary>'' @ [CHR 0x0A]
            @ ''<current_turn> User: hi'' @ [CHR 0x0A]
            @ ''Assistant: Hello. </current_turn>'' @ [CHR 0x0A])"
proof -
  have h: "map_of user_hi ''content'' = map_of [(''content'', ''hi''), (''name'', ''Adam'')] ''content''
   \<and> map_of [(''role'', ''assistant''), (''content'', ''Hello.'')] ''content''
       = map_of [(''content'', ''Hello.'')] ''content''"
    by (simp add: user_hi_def)
  have v: "fst (generate_summarization (deterministic echo_first) ''Greeting.'' user_hi
             [(''role'', ''assistant''), (''content'', ''Hello.'')] (0::nat))
     = Inr (''Please summarize the following conversation in a concise manner:'' @ [CHR 0x0A]
            @ ''<previous_summary>Greeting.</previous_summary>'' @ [CHR 0x0A]
            @ ''<current_turn> User: hi'' @ [CHR 0x0A]
            @ ''Assistant: Hello. </current_turn>'' @ [CHR 0x0A])"
    by (simp add: thread_defs deterministic_def echo_first_def)
  from summary_function_of_triple[of user_hi "[(''content'', ''hi''), (''name'', ''Adam'')]"
         "[(''role'', ''assistant''), (''content'', ''Hello.'')]" "[(''content'', ''Hello.'')]"
         echo_first "''Greeting.''" "0::nat" "7::nat"] h v
  show ?thesis by blast
qed

text \<open>
  Claim C4. The system prompt has the role \<^verbatim>\<open>system\<close>; its content is the fixed persona
  text around a block. For a non-empty summary the block is the summary, verbatim, between
  the \<^verbatim>\<open><conversation_summary>\<close> delimiters; for the empty summary the block is empty
  and the delimiter's name occurs nowhere in the prompt.
\<close>

theorem system_prompt_summary_block:
  "\<exists>block.
      map_of (create_system_prompt s) ''role'' = Some ''system''
    \<and> map_of (create_system_prompt s) ''content'' =
        Some (''You are Alice, a helpful assistant who speaks using as few words as possible. ''
              @ [CHR 0x0A] @ ''        ''
              @ block
              @ '' '' @ [CHR 0x0A] @ ''        Let'' @ [CHR 0x27] @ ''s chat!'')
    \<and> (s \<noteq> [] \<longrightarrow>
          block = ''Here is a summary of the conversation so far: '' @ [CHR 0x0A]
                  @ ''    <conversation_summary>'' @ [CHR 0x0A] @ ''      ''
                  @ s
                  @ [CHR 0x0A] @ ''    </conversation_summary>'')
    \<and> (s = [] \<longrightarrow>
          block = [] \<and>
          \<not> sublist ''conversation_summary''
               (''You are Alice, a helpful assistant who speaks using as few words as possible. ''
                @ [CHR 0x0A] @ ''        ''
                @ block
                @ '' '' @ [CHR 0x0A] @ ''        Let'' @ [CHR 0x27] @ ''s chat!''))"
proof (cases "s = []")
  case True
  have "\<not> sublist ''conversation_summary''
               (''You are Alice, a helpful assistant who speaks using as few words as possible. ''
                @ [CHR 0x0A] @ ''        ''
                @ []
                @ '' '' @ [CHR 0x0A] @ ''        Let'' @ [CHR 0x27] @ ''s chat!'')"
    by (simp add: sublist_code)
  with True show ?thesis
    by (intro exI[of _ "[]"]) (simp add: create_system_prompt_def persona_head_def persona_tail_def)
next
  case False
  then show ?thesis
    by (simp add: create_system_prompt_def persona_head_def persona_tail_def
          summary_open_def summary_close_def)
qed

theorem system_prompt_summary_block_witness:
  "''The user is Adam.'' \<noteq> [] \<and>
   map_of (create_system_prompt ''The user is Adam.'') ''content'' =
     Some (''You are Alice, a helpful assistant who speaks using as few words as possible. ''
           @ [CHR 0x0A] @ ''        ''
           @ ''Here is a summary of the conversation so far: '' @ [CHR 0x0A]
           @ ''    <conversation_summary>'' @ [CHR 0x0A] @ ''      ''
           @ ''The user is Adam.''
           @ [CHR 0x0A] @ ''    </conversation_summary>''
           @ '' '' @ [CHR 0x0A] @ ''        Let'' @ [CHR 0x27] @ ''s chat!'')"
proof -
  have ne: "''The user is Adam.'' \<noteq> []" by simp
  from system_prompt_summary_block[of "''The user is Adam.''"] ne
  show ?thesis by auto
qed

text \<open>
  Claim C5. Run against a recording client, a summary update makes exactly one call: a
  list of two messages, the model \<^verbatim>\<open>gpt-4o-mini\<close>, not streaming. The first message is
  the system message whose content holds the previous summary verbatim, or the marker
  \<^verbatim>\<open>No previous summary\<close> when it is empty, then the user content and the assistant
  content of the turn under their labels. A successful turn makes two calls, the
  responder's with \<^verbatim>\<open>gpt-4o\<close> and then the summarizer's with a different model.
\<close>

theorem summarizer_call_shape:
  "(getitem user_message ''content'' = Inr uc \<and> getitem assistant_response ''content'' = Inr ac
    \<longrightarrow> snd (generate_summarization (recording answer) ps user_message assistant_response log)
        = log @
          [([[(''role'', ''system''),
              (''content'',
                 ''Please summarize the following conversation in a concise manner:'' @ [CHR 0x0A]
                 @ ''<previous_summary>''
                 @ (if ps = [] then ''No previous summary'' else ps)
                 @ ''</previous_summary>'' @ [CHR 0x0A]
                 @ ''<current_turn> User: '' @ uc @ [CHR 0x0A]
                 @ ''Assistant: '' @ ac @ '' </current_turn>'' @ [CHR 0x0A])],
             [(''role'', ''user''),
              (''content'', ''Please create/update our conversation summary.'')]],
            ''gpt-4o-mini'', False)])
   \<and> (thread_chat (recording answer) request ps log = (Inr r, s1, log1)
    \<longrightarrow> (\<exists>first second responder_model summarizer_model.
           log1 = log @
             [([create_system_prompt ps, hd (messages request)], responder_model, False),
              ([first, second], summarizer_model, False)]
         \<and> responder_model = ''gpt-4o'' \<and> summarizer_model = ''gpt-4o-mini''
         \<and> summarizer_model \<noteq> responder_model))"
proof (intro conjI impI)
  assume a: "getitem user_message ''content'' = Inr uc \<and> getitem assistant_response ''content'' = Inr ac"
  then show "snd (generate_summarization (recording answer) ps user_message assistant_response log)
        = log @
          [([[(''role'', ''system''),
              (''content'',
                 ''Please summarize the following conversation in a concise manner:'' @ [CHR 0x0A]
                 @ ''<previous_summary>''
                 @ (if ps = [] then ''No previous summary'' else ps)
                 @ ''</previous_summary>'' @ [CHR 0x0A]
                 @ ''<current_turn> User: '' @ uc @ [CHR 0x0A]
                 @ ''Assistant: '' @ ac @ '' </current_turn>'' @ [CHR 0x0A])],
             [(''role'', ''user''),
              (''content'', ''Please create/update our conversation summary.'')]],
            ''gpt-4o-mini'', False)]"
    by (simp add: generate_summarization_recording_log summarization_content_def)
next
  assume t: "thread_chat (recording answer) request ps log = (Inr r, s1, log1)"
  from thread_chat_success[OF t] obtain c0 w1 where
    c0: "choices r = [c0]"
    and r: "thread_completion (recording answer) [create_system_prompt ps, hd (messages request)]
                ''gpt-4o'' False log = (Inr r, w1)"
    and g: "generate_summarization (recording answer) ps (hd (messages request)) (message c0) w1
                = (Inr s1, log1)"
    by blast
  from r have w1: "w1 = log @ [([create_system_prompt ps, hd (messages request)], ''gpt-4o'', False)]"
    using recording_log[of answer "[create_system_prompt ps, hd (messages request)]" "''gpt-4o''" False log]
    by simp
  from generate_summarization_Inr_contents[OF g] obtain uc' ac' where
    "getitem (hd (messages request)) ''content'' = Inr uc'"
    "getitem (message c0) ''content'' = Inr ac'" by blast
  from generate_summarization_recording_log[OF this, of answer ps w1] g
  have "log1 = w1 @ [([[(''role'', ''system''), (''content'', summarization_content ps uc' ac')],
                 [(''role'', ''user''),
                  (''content'', ''Please create/update our conversation summary.'')]],
                ''gpt-4o-mini'', False)]"
    by simp
  with w1 show "\<exists>first second responder_model summarizer_model.
           log1 = log @
             [([create_system_prompt ps, hd (messages request)], responder_model, False),
              ([first, second], summarizer_model, False)]
         \<and> responder_model = ''gpt-4o'' \<and> summarizer_model = ''gpt-4o-mini''
         \<and> summarizer_model \<noteq> responder_model"
    by simp
qed

theorem summarizer_call_shape_witness:
  "getitem user_hi ''content'' = Inr ''hi''
   \<and> getitem [(''role'', ''assistant''), (''content'', ''Hello.'')] ''content'' = Inr ''Hello.''
   \<and> snd (generate_summarization (recording always_hello) '''' user_hi
            [(''role'', ''assistant''), (''content'', ''Hello.'')] [])
       = [([[(''role'', ''system''),
             (''content'',
                ''Please summarize the following conversation in a concise manner:'' @ [CHR 0x0A]
                @ ''<previous_summary>No previous summary</previous_summary>'' @ [CHR 0x0A]
                @ ''<current_turn> User: hi'' @ [CHR 0x0A]
                @ ''Assistant: Hello. </current_turn>'' @ [CHR 0x0A])],
            [(''role'', ''user''),
             (''content'', ''Please create/update our conversation summary.'')]],
           ''gpt-4o-mini'', False)]
   \<and> snd (snd (thread_chat (recording always_hello) \<lparr>messages = [user_hi]\<rparr> '''' []))
       = [([create_system_prompt '''', user_hi], ''gpt-4o'', False),
          ([[(''role'', ''system''),
             (''content'',
                ''Please summarize the following conversation in a concise manner:'' @ [CHR 0x0A]
                @ ''<previous_summary>No previous summary</previous_summary>'' @ [CHR 0x0A]
                @ ''<current_turn> User: hi'' @ [CHR 0x0A]
                @ ''Assistant: Hello. </current_turn>'' @ [CHR 0x0A])],
            [(''role'', ''user''),
             (''content'', ''Please create/update our conversation summary.'')]],
           ''gpt-4o-mini'', False)]"
proof -
  have t: "snd (snd (thread_chat (recording always_hello) \<lparr>messages = [user_hi]\<rparr> '''' []))
       = [([create_system_prompt '''', user_hi], ''gpt-4o'', False),
          ([[(''role'', ''system''),
             (''content'',
                ''Please summarize the following conversation in a concise manner:'' @ [CHR 0x0A]
                @ ''<previous_summary>No previous summary</previous_summary>'' @ [CHR 0x0A]
                @ ''<current_turn> User: hi'' @ [CHR 0x0A]
                @ ''Assistant: Hello. </current_turn>'' @ [CHR 0x0A])],
            [(''role'', ''user''),
             (''content'', ''Please create/update our conversation summary.'')]],
           ''gpt-4o-mini'', False)]"
    by (simp add: thread_defs recording_def always_hello_def)
  have h: "getitem user_hi ''content'' = Inr ''hi''
     \<and> getitem [(''role'', ''assistant''), (''content'', ''Hello.'')] ''content'' = Inr ''Hello.''"
    by (simp add: getitem_def user_hi_def)
  from summarizer_call_shape[of user_hi "''hi''" "[(''role'', ''assistant''), (''content'', ''Hello.'')]"
         "''Hello.''" always_hello "''''" "[]"] h t
  show ?thesis by simp
qed

text \<open>
  Claim C7 against the stateful service: \<^verbatim>\<open>chat\<close> raises
  \<^verbatim>\<open>HTTPException(status_code=500, detail=str(error))\<close>, so the body of the 500 is the text
  of the exception. Two different failures of the responder call give two different
  bodies, each repeating the cause.
\<close>

theorem chat_500_detail_is_exception_text:
  "fst (thread_chat scripted \<lparr>messages = [user_hi]\<rparr> ''''
          [Inl (UpstreamError ''Incorrect API key provided: sk-live-1234'')])
     = Inl (HTTPException 500 ''Incorrect API key provided: sk-live-1234'')
   \<and> fst (thread_chat scripted \<lparr>messages = [user_hi]\<rparr> ''''
          [Inl (UpstreamError ''Connection refused: 10.0.0.7:443'')])
     = Inl (HTTPException 500 ''Connection refused: 10.0.0.7:443'')"
  by (simp add: thread_defs)

text \<open>
  Claim C9. \<^verbatim>\<open>POST /api/demo\<close> is three turns of \<^verbatim>\<open>POST /api/chat\<close> run one after the
  other on the three hardcoded user messages, each turn starting from the summary and the
  world the turn before left. It returns the response of the third turn; a turn that
  fails ends the run with that turn's HTTP 500.
\<close>

theorem demo_is_three_chat_turns:
  "demo create ps w =
     (case thread_chat create
             \<lparr>messages = [[(''content'', ''Hi! I'' @ [CHR 0x27] @ ''m Adam''), (''role'', ''user'')]]\<rparr>
             ps w of
        (Inl e, s1, w1) \<Rightarrow> (Inl e, s1, w1)
      | (Inr r1, s1, w1) \<Rightarrow>
     (case thread_chat create
             \<lparr>messages = [[(''content'', ''How are you?''), (''role'', ''user'')]]\<rparr> s1 w1 of
        (Inl e, s2, w2) \<Rightarrow> (Inl e, s2, w2)
      | (Inr r2, s2, w2) \<Rightarrow>
     (case thread_chat create
             \<lparr>messages = [[(''content'', ''Do you know my name?''), (''role'', ''user'')]]\<rparr>
             s2 w2 of
        (Inl e, s3, w3) \<Rightarrow> (Inl e, s3, w3)
      | (Inr r3, s3, w3) \<Rightarrow> (Inr (Some r3), s3, w3))))"
  unfolding demo_def demo_messages_def
  by (simp only: demo_loop_step demo_loop.simps(1) cong: sum.case_cong prod.case_cong)

theorem demo_is_three_chat_turns_witness:
  "demo scripted '''' demo_script =
     (Inr (Some \<lparr>choices = [\<lparr>message = [(''role'', ''assistant''),
                                           (''content'', ''Yes, you are Adam.'')],
                                index = 0\<rparr>],
                  model = ''stub'', usage = [(''total_tokens'', 0)]\<rparr>),
      ''The user is Adam and asked whether Alice knows his name.'', [])"
  using demo_is_three_chat_turns[of scripted "''''" demo_script]
  by (simp add: thread_defs demo_script_def)

text \<open>
  Claim C10. \<^verbatim>\<open>chat\<close> reads \<^verbatim>\<open>request.messages[0]\<close> only: a request with further
  messages gives the same response, the same new summary and the same calls to the
  outside as the request holding the first message alone.
\<close>

theorem chat_uses_first_message_only:
  "thread_chat create \<lparr>messages = m # ms\<rparr> ps w = thread_chat create \<lparr>messages = [m]\<rparr> ps w"
  by (simp add: thread_chat_def split: prod.splits sum.splits)

theorem chat_uses_first_message_only_witness:
  "thread_chat scripted \<lparr>messages = [user_hi, [(''role'', ''user''), (''content'', ''ignored'')]]\<rparr> ''''
         [Inr (stub_completion ''Hello.''), Inr (stub_completion ''The user said hi.'')]
   = (Inr \<lparr>choices = [\<lparr>message = [(''role'', ''assistant''), (''content'', ''Hello.'')], index = 0\<rparr>],
           model = ''stub'', usage = [(''total_tokens'', 0)]\<rparr>, ''The user said hi.'', [])"
  using chat_uses_first_message_only[of scripted user_hi "[[(''role'', ''user''), (''content'', ''ignored'')]]" "''''"
     "[Inr (stub_completion ''Hello.''), Inr (stub_completion ''The user said hi.'')]"]
  by (simp add: thread_defs)

section \<open>Properties of the basic service\<close>

lemma is_valid_message_dict_value:
  "is_valid_message (dict_value m) \<longleftrightarrow> map_of m ''role'' \<noteq> None \<and> map_of m ''content'' \<noteq> None"
proof -
  have "map_of (map (\<lambda>(k, v). (k, PyStr v)) m) k = map_option PyStr (map_of m k)" for k
    by (induction m) auto
  then show ?thesis
    by (auto simp: dict_value_def split: option.splits pyval.splits)
qed

lemma sdk_completion_raises: "\<exists>error. fst (sdk_completion create msgs mdl w) = Inl error"
  by (auto simp: sdk_completion_def split: prod.splits sum.splits)

text \<open>
  Every request that passes the validation of the basic service is answered HTTP 500:
  the awaited value is never returned.
\<close>

lemma sdk_chat_never_returns: "\<exists>h. fst (sdk_chat create request w) = Inl h"
  using sdk_completion_raises[of create "[sdk_system_prompt] @ sdk_messages request" "''gpt-4''" w]
  by (auto simp: sdk_chat_def split: prod.splits sum.splits)

text \<open>
  Claim C6, amended. For every request the handler of the basic service receives (a list
  of dictionaries from text to text), the answer is HTTP 400 exactly when the list is
  empty or some message lacks the key \<^verbatim>\<open>role\<close> or the key \<^verbatim>\<open>content\<close>. An empty list
  gets the detail \<^verbatim>\<open>Invalid or missing messages in request body\<close>, a message without one
  of the keys the detail \<^verbatim>\<open>Invalid message format in request body\<close>. The value under
  \<^verbatim>\<open>role\<close> is not examined.
\<close>

theorem sdk_chat_validation:
  "((\<exists>d. fst (sdk_chat create request w) = Inl (HTTPException 400 d)) \<longleftrightarrow>
      (sdk_messages request = [] \<or>
       (\<exists>m \<in> set (sdk_messages request).
          map_of m ''role'' = None \<or> map_of m ''content'' = None)))
   \<and> (sdk_messages request = [] \<longrightarrow>
        sdk_chat create request w =
          (Inl (HTTPException 400 ''Invalid or missing messages in request body''), w))
   \<and> (sdk_messages request \<noteq> [] \<and>
        (\<exists>m \<in> set (sdk_messages request).
           map_of m ''role'' = None \<or> map_of m ''content'' = None) \<longrightarrow>
        sdk_chat create request w =
          (Inl (HTTPException 400 ''Invalid message format in request body''), w))"
proof -
  have all: "list_all (\<lambda>msg. is_valid_message (dict_value msg)) (sdk_messages request)
               \<longleftrightarrow> \<not> (\<exists>m \<in> set (sdk_messages request).
                        map_of m ''role'' = None \<or> map_of m ''content'' = None)"
    by (simp add: list_all_iff is_valid_message_dict_value)
  show ?thesis
  proof (cases "sdk_messages request = []")
    case True
    then show ?thesis by (simp add: sdk_chat_def)
  next
    case ne: False
    show ?thesis
    proof (cases "list_all (\<lambda>msg. is_valid_message (dict_value msg)) (sdk_messages request)")
      case True
      with ne all show ?thesis
        by (auto simp: sdk_chat_def sdk_completion_def split: prod.splits sum.splits)
    next
      case False
      with ne all show ?thesis
        by (auto simp: sdk_chat_def)
    qed
  qed
qed

theorem sdk_chat_validation_witness:
  "sdk_messages \<lparr>sdk_messages = [[(''content'', ''hi'')]]\<rparr> \<noteq> []
   \<and> map_of [(''content'', ''hi'')] ''role'' = None
   \<and> sdk_chat (sdk_fixed (Inr (stub_completion ''Hello.'')))
        \<lparr>sdk_messages = [[(''content'', ''hi'')]]\<rparr> ()
       = (Inl (HTTPException 400 ''Invalid message format in request body''), ())"
  using sdk_chat_validation[of "sdk_fixed (Inr (stub_completion ''Hello.''))"
          "\<lparr>sdk_messages = [[(''content'', ''hi'')]]\<rparr>" "()"]
  by simp

text \<open>
  Claim C6, as stated, fails on the code: a message whose role is not one of
  \<^verbatim>\<open>system\<close>, \<^verbatim>\<open>user\<close>, \<^verbatim>\<open>assistant\<close> passes \<^verbatim>\<open>is_valid_message\<close>, and the request
  is not answered 400, whether the library call returns or raises.
\<close>

theorem unrecognized_role_is_accepted:
  "is_valid_message (dict_value [(''role'', ''banana''), (''content'', ''hi'')])
   \<and> fst (sdk_chat (sdk_fixed (Inr (stub_completion ''Hello.'')))
            \<lparr>sdk_messages = [[(''role'', ''banana''), (''content'', ''hi'')]]\<rparr> ())
       = Inl (HTTPException 500 ''An error occurred while processing your request'')
   \<and> fst (sdk_chat (sdk_fixed (Inl (UpstreamError ''bad role'')))
            \<lparr>sdk_messages = [[(''role'', ''banana''), (''content'', ''hi'')]]\<rparr> ())
       = Inl (HTTPException 500 ''An error occurred while processing your request'')"
  by (simp add: sdk_chat_def sdk_completion_def sdk_fixed_def dict_value_def)

end
